theory Spec2Isabelle
  imports Main "HOL-Library.Multiset"
begin

section \<open>The stock ledger: \<open>StockMovement.save\<close>\<close>

text \<open>
  The backend method the architecture notes quote (\<open>stock_api/models.py\<close>):
  \<^verbatim>\<open>
  def save(self, *args, **kwargs):
      with transaction.atomic():
          stock_level, created = StockLevel.objects.get_or_create(
              product_variant=self.product_variant,
              location=self.location,
              defaults={'quantity': 0})
          stock_level.quantity += self.quantity_change
          stock_level.save()
          super().save(*args, **kwargs)
  \<close>
  A movement is the model instance being saved; the database holds the \<open>StockLevel\<close>
  rows, one per (variant, location) pair, and the \<open>StockMovement\<close> rows in insertion
  order. Python integers are unbounded, so quantities are \<open>int\<close>. The instance is a
  new one, as the create view of the API builds it, so \<open>super().save()\<close> inserts a row.
\<close>

record StockMovement =
  product_variant :: nat
  location :: nat
  quantity_change :: int
  movement_notes :: string

record database =
  stock_levels :: "nat \<times> nat \<rightharpoonup> int"
  stock_movements :: "StockMovement list"

definition empty_database :: database where
  "empty_database = \<lparr>stock_levels = Map.empty, stock_movements = []\<rparr>"

text \<open>
  Each of the three statements of the block reaches the database and may raise there.
  Which of them do is an input of the model: \<open>fails s\<close> says that the storage raises
  at statement \<open>s\<close>.
\<close>

datatype db_statement = GetOrCreate | SaveStockLevel | SaveMovement

datatype error = DatabaseError db_statement

definition no_failure :: "db_statement \<Rightarrow> bool" where
  "no_failure s = False"

definition fails_at :: "db_statement \<Rightarrow> db_statement \<Rightarrow> bool" where
  "fails_at s t = (s = t)"

definition movement_key :: "StockMovement \<Rightarrow> nat \<times> nat" where
  "movement_key m = (product_variant m, location m)"

text \<open>
  \<open>get_or_create\<close>: the row's quantity and the \<open>created\<close> flag; a missing row is
  inserted with the default quantity 0.
\<close>

definition get_or_create ::
  "(db_statement \<Rightarrow> bool) \<Rightarrow> nat \<times> nat \<Rightarrow> database \<Rightarrow> error + (int \<times> bool) \<times> database" where
  "get_or_create fails k db =
     (if fails GetOrCreate then Inl (DatabaseError GetOrCreate)
      else case stock_levels db k of
             Some q \<Rightarrow> Inr ((q, False), db)
           | None \<Rightarrow> Inr ((0, True), db\<lparr>stock_levels := (stock_levels db)(k \<mapsto> 0)\<rparr>))"

text \<open>
  The statements inside the \<open>with\<close> block. The result is the exception that left the
  block, if any, and the database as the statements executed so far have written it.
\<close>

definition save_body ::
  "(db_statement \<Rightarrow> bool) \<Rightarrow> StockMovement \<Rightarrow> database \<Rightarrow> error option \<times> database" where
  "save_body fails self db =
     (case get_or_create fails (movement_key self) db of
        Inl e \<Rightarrow> (Some e, db)
      | Inr ((quantity, created), db1) \<Rightarrow>
          let quantity' = quantity + quantity_change self in
          if fails SaveStockLevel then (Some (DatabaseError SaveStockLevel), db1)
          else
            let db2 = db1\<lparr>stock_levels := (stock_levels db1)(movement_key self \<mapsto> quantity')\<rparr> in
            if fails SaveMovement then (Some (DatabaseError SaveMovement), db2)
            else (None, db2\<lparr>stock_movements := stock_movements db2 @ [self]\<rparr>))"

text \<open>
  \<open>transaction.atomic()\<close>: the block's writes are committed when it ends normally and
  rolled back when an exception leaves it; the exception propagates.
\<close>

definition atomic ::
  "(database \<Rightarrow> error option \<times> database) \<Rightarrow> database \<Rightarrow> error option \<times> database" where
  "atomic body db =
     (case body db of
        (Some e, _) \<Rightarrow> (Some e, db)
      | (None, db') \<Rightarrow> (None, db'))"

definition save ::
  "(db_statement \<Rightarrow> bool) \<Rightarrow> StockMovement \<Rightarrow> database \<Rightarrow> error option \<times> database" where
  "save fails self db = atomic (save_body fails self) db"




text \<open>The ledger's entries for one key, and the sum of their deltas.\<close>

definition movements_for :: "database \<Rightarrow> nat \<times> nat \<Rightarrow> StockMovement list" where
  "movements_for db k = filter (\<lambda>m. movement_key m = k) (stock_movements db)"

definition ledger_sum :: "database \<Rightarrow> nat \<times> nat \<Rightarrow> int" where
  "ledger_sum db k = sum_list (map quantity_change (movements_for db k))"



text \<open>The quantity a reader sees for a key: the row's, or the baseline 0 without one.\<close>

definition balance :: "database \<Rightarrow> nat \<times> nat \<Rightarrow> int" where
  "balance db k = (case stock_levels db k of Some q \<Rightarrow> q | None \<Rightarrow> 0)"

subsection \<open>Concurrent calls\<close>

text \<open>
  A call of \<open>save\<close> reaches the database three times: to fetch the row
  (\<open>get_or_create\<close>), to write the row back with the quantity it computed from the
  value it fetched (\<open>stock_level.save()\<close>), and to insert the movement
  (\<open>super().save()\<close>). Nothing in the method locks the row between the fetch and the
  write, so another call may run between two of these. \<open>progress\<close> is where a call
  stands; after the fetch it holds the quantity of its \<open>stock_level\<close> object.
\<close>

datatype progress = NotStarted | Fetched int | Written | Finished

fun save_step :: "StockMovement \<Rightarrow> progress \<Rightarrow> database \<Rightarrow> progress \<times> database" where
  "save_step self NotStarted db =
     (case get_or_create no_failure (movement_key self) db of
        Inl e \<Rightarrow> (NotStarted, db)
      | Inr ((quantity, created), db1) \<Rightarrow> (Fetched quantity, db1))"
| "save_step self (Fetched quantity) db =
     (Written,
      db\<lparr>stock_levels := (stock_levels db)(movement_key self \<mapsto> quantity + quantity_change self)\<rparr>)"
| "save_step self Written db =
     (Finished, db\<lparr>stock_movements := stock_movements db @ [self]\<rparr>)"
| "save_step self Finished db = (Finished, db)"

text \<open>
  A schedule names, step by step, the call that moves next. The calls share the
  database; each keeps its own progress.
\<close>

fun interleave ::
  "nat list \<Rightarrow> (StockMovement \<times> progress) list \<Rightarrow> database
     \<Rightarrow> (StockMovement \<times> progress) list \<times> database" where
  "interleave [] calls db = (calls, db)"
| "interleave (i # schedule) calls db =
     (if i < length calls
      then let (self, pr) = calls ! i;
               (pr', db') = save_step self pr db
           in interleave schedule (calls[i := (self, pr')]) db'
      else interleave schedule calls db)"

subsection \<open>The guard before \<open>save\<close>\<close>

text \<open>
  Modelled from the spec: the validation of a movement, which the backend runs in its
  request serializer before it calls \<open>save\<close> and which is not among the source files.
  The specification (4.1, 4.3) gives it as a pure guard: the quantity change must be a
  nonzero integer, and the variant and the location must be among the existing ones;
  otherwise the operation fails with \<open>ValidationError\<close>.
\<close>

datatype quantity_input = IntegerValue int | NonInteger string

datatype apply_error = ValidationError | StorageFailure error

definition validate_movement ::
  "nat list \<Rightarrow> nat list \<Rightarrow> nat \<Rightarrow> nat \<Rightarrow> quantity_input \<Rightarrow> string
     \<Rightarrow> apply_error + StockMovement" where
  "validate_movement variants locations variantId locationId quantityChange noteText =
     (case quantityChange of
        NonInteger raw \<Rightarrow> Inl ValidationError
      | IntegerValue q \<Rightarrow>
          if q = 0 then Inl ValidationError
          else if variantId \<notin> set variants \<or> locationId \<notin> set locations
          then Inl ValidationError
          else Inr \<lparr>product_variant = variantId, location = locationId,
                    quantity_change = q, movement_notes = noteText\<rparr>)"

text \<open>
  Modelled from the spec: \<open>applyMovement\<close>, the guard followed by the atomic apply
  step. The apply step is the source's \<open>save\<close>.
\<close>

definition applyMovement ::
  "(db_statement \<Rightarrow> bool) \<Rightarrow> nat list \<Rightarrow> nat list \<Rightarrow> nat \<Rightarrow> nat \<Rightarrow> quantity_input \<Rightarrow> string
     \<Rightarrow> database \<Rightarrow> (apply_error + StockMovement) \<times> database" where
  "applyMovement fails variants locations variantId locationId quantityChange noteText db =
     (case validate_movement variants locations variantId locationId quantityChange noteText of
        Inl e \<Rightarrow> (Inl e, db)
      | Inr movement \<Rightarrow>
          (case save fails movement db of
             (Some e, db') \<Rightarrow> (Inl (StorageFailure e), db')
           | (None, db') \<Rightarrow> (Inr movement, db')))"

section \<open>The client page\<close>

text \<open>
  The two client scripts, \<open>script.js\<close> and the second script of the repository
  (\<open>unnamed/part_000\<close>, a plainer variant of the same page), define the same two
  handlers. Both are modelled; the definitions of the second carry the suffix
  \<open>_part_000\<close>.

  A handler is an \<open>async\<close> function over the page's elements. The model passes the
  page explicitly and takes what the outside world answers as inputs: the outcome of
  each \<open>fetch\<close>, and the comparison \<open>localeCompare\<close> of the browser's locale.
  An exception is a branch into the handler's \<open>catch\<close> block, on the page as the
  statements before the \<open>throw\<close> left it. The calls of \<open>console.error\<close>,
  \<open>Swal.fire\<close> and \<open>alert\<close> return normally.
\<close>

subsection \<open>Values exchanged with the API\<close>

datatype json = JNull | JString string | JNumber int | JObject "(string \<times> json) list"

text \<open>
  \<open>await fetch(...)\<close> either rejects (\<open>NetworkError\<close>) or gives a response with
  its \<open>ok\<close> flag; \<open>await response.json()\<close> gives the parsed body, or rejects
  (\<open>None\<close>).
\<close>

datatype 'a fetch_result = NetworkError | Response bool "'a option"

text \<open>An element of the \<open>/api/stock-levels/\<close> listing, with the fields the page reads.\<close>

record variant_json =
  variant_product :: string
  variant_size :: string
  variant_color :: string

record stock_item =
  item_product_variant :: variant_json
  item_location_name :: string
  item_quantity :: int

subsection \<open>The page\<close>

text \<open>
  A row of the table body: the four cells of a stock row, or a single cell spanning the
  table that carries a message.
\<close>

datatype table_row = StockRow string string string int | MessageRow string

fun first_cell :: "table_row \<Rightarrow> string" where
  "first_cell (StockRow product variant location_name quantity) = product"
| "first_cell (MessageRow message) = message"

record swal_options =
  swal_icon :: string
  swal_title :: string
  swal_text :: "string option"
  swal_showConfirmButton :: "bool option"
  swal_timer :: "nat option"

text \<open>What a handler does that is visible beyond the element it touches, in program order.\<close>

datatype event =
    PreventDefault
  | SubmitDisabled bool
  | SubmitInnerHTML string
  | SubmitAriaBusy bool
  | FormReset
  | Fetch string string "(string \<times> string) list" "json option"
  | SwalFire swal_options
  | Alert string
  | ConsoleError string

text \<open>
  The elements the handlers use. \<open>form_entries\<close> is what \<open>new FormData(movementForm)\<close>
  reads, name and value in document order; \<open>form_defaults\<close> is what
  \<open>movementForm.reset()\<close> restores. The table body's \<open>innerHTML\<close> is kept as its list
  of rows.
\<close>

record page =
  form_entries :: "(string \<times> string) list"
  form_defaults :: "(string \<times> string) list"
  submit_disabled :: bool
  submit_innerHTML :: string
  submit_aria_busy :: "string option"
  stockTableBody_innerHTML :: "table_row list"
  stockTableBody_display :: string
  loadingSpinner_display :: string
  emptyState_display :: string
  events :: "event list"

definition emit :: "event \<Rightarrow> page \<Rightarrow> page" where
  "emit e p = p\<lparr>events := events p @ [e]\<rparr>"

definition new_events :: "page \<Rightarrow> page \<Rightarrow> event list" where
  "new_events p p' = drop (length (events p)) (events p')"

definition set_submit_disabled :: "bool \<Rightarrow> page \<Rightarrow> page" where
  "set_submit_disabled b p = emit (SubmitDisabled b) (p\<lparr>submit_disabled := b\<rparr>)"

definition set_submit_innerHTML :: "string \<Rightarrow> page \<Rightarrow> page" where
  "set_submit_innerHTML html p = emit (SubmitInnerHTML html) (p\<lparr>submit_innerHTML := html\<rparr>)"

definition set_submit_aria_busy :: "string option \<Rightarrow> page \<Rightarrow> page" where
  "set_submit_aria_busy v p = emit (SubmitAriaBusy (v \<noteq> None)) (p\<lparr>submit_aria_busy := v\<rparr>)"

definition form_reset :: "page \<Rightarrow> page" where
  "form_reset p = emit FormReset (p\<lparr>form_entries := form_defaults p\<rparr>)"

definition API_BASE_URL :: string where
  "API_BASE_URL = ''https://oldtree-api.onrender.com''"

subsection \<open>\<open>script.js\<close>: the table\<close>

definition showLoading :: "bool \<Rightarrow> page \<Rightarrow> page" where
  "showLoading isLoading p =
     p\<lparr>loadingSpinner_display := (if isLoading then ''block'' else ''none''),
       stockTableBody_display := (if isLoading then ''none'' else '''')\<rparr>"

definition showEmptyState :: "bool \<Rightarrow> page \<Rightarrow> page" where
  "showEmptyState isEmpty p = p\<lparr>emptyState_display := (if isEmpty then ''block'' else ''none'')\<rparr>"

text \<open>
  \<open>Array.prototype.sort\<close> with a comparison function, by its contract: the sort is
  stable, and \<open>a\<close> stays before \<open>b\<close> unless the comparison of \<open>a\<close> with \<open>b\<close> is
  positive. The model is the stable insertion sort.
\<close>

fun sort_insert :: "('a \<Rightarrow> 'a \<Rightarrow> int) \<Rightarrow> 'a \<Rightarrow> 'a list \<Rightarrow> 'a list" where
  "sort_insert compareFn x [] = [x]"
| "sort_insert compareFn x (y # ys) =
     (if compareFn x y \<le> 0 then x # y # ys else y # sort_insert compareFn x ys)"

fun array_sort :: "('a \<Rightarrow> 'a \<Rightarrow> int) \<Rightarrow> 'a list \<Rightarrow> 'a list" where
  "array_sort compareFn [] = []"
| "array_sort compareFn (x # xs) = sort_insert compareFn x (array_sort compareFn xs)"

text \<open>The comparison passed to \<open>sort\<close>:
  \<^verbatim>\<open>(a, b) => a.product_variant.product.localeCompare(b.product_variant.product)\<close>\<close>

definition compare_product ::
  "(string \<Rightarrow> string \<Rightarrow> int) \<Rightarrow> stock_item \<Rightarrow> stock_item \<Rightarrow> int" where
  "compare_product localeCompare a b =
     localeCompare (variant_product (item_product_variant a))
       (variant_product (item_product_variant b))"

definition render_row :: "stock_item \<Rightarrow> table_row" where
  "render_row item =
     StockRow (variant_product (item_product_variant item))
       (variant_size (item_product_variant item) @ '' / '' @ variant_color (item_product_variant item))
       (item_location_name item)
       (item_quantity item)"

definition append_row :: "(stock_item \<Rightarrow> table_row) \<Rightarrow> page \<Rightarrow> stock_item \<Rightarrow> page" where
  "append_row render p item =
     p\<lparr>stockTableBody_innerHTML := stockTableBody_innerHTML p @ [render item]\<rparr>"

definition load_failed_alert :: swal_options where
  "load_failed_alert =
     \<lparr>swal_icon = ''error'', swal_title = ''Failed to Load Stock Data'',
      swal_text = Some ''Could not connect to the server. Please try again later.'',
      swal_showConfirmButton = None, swal_timer = None\<rparr>"

text \<open>The \<open>catch\<close> block of \<open>fetchAndPopulateTable\<close>.\<close>

definition table_catch :: "page \<Rightarrow> page" where
  "table_catch p =
     showEmptyState True
       (emit (SwalFire load_failed_alert)
          (emit (ConsoleError ''Error fetching stock levels:'') p))"

text \<open>The statements of the \<open>try\<close> block after \<open>stockLevels\<close> is parsed.\<close>

definition populate_table ::
  "(string \<Rightarrow> string \<Rightarrow> int) \<Rightarrow> stock_item list \<Rightarrow> page \<Rightarrow> page" where
  "populate_table localeCompare stockLevels p =
     (let p1 = p\<lparr>stockTableBody_innerHTML := []\<rparr> in
      if length stockLevels = 0 then showEmptyState True p1
      else foldl (append_row render_row) p1
             (array_sort (compare_product localeCompare) stockLevels))"

definition fetchAndPopulateTable ::
  "(string \<Rightarrow> string \<Rightarrow> int) \<Rightarrow> stock_item list fetch_result \<Rightarrow> page \<Rightarrow> page" where
  "fetchAndPopulateTable localeCompare stock_levels_result p =
     (let p1 = showEmptyState False (showLoading True p);
          p2 = emit (Fetch ''GET'' (API_BASE_URL @ ''/api/stock-levels/'') [] None) p1;
          p3 = (case stock_levels_result of
                  NetworkError \<Rightarrow> table_catch p2
                | Response ok body \<Rightarrow>
                    if \<not> ok then table_catch p2
                    else (case body of
                            None \<Rightarrow> table_catch p2
                          | Some stockLevels \<Rightarrow> populate_table localeCompare stockLevels p2))
      in showLoading False p3)"

subsection \<open>\<open>script.js\<close>: the form\<close>

text \<open>\<open>formData.get(name)\<close>: the first value of that name, or \<open>null\<close>.\<close>

definition formdata_get :: "(string \<times> string) list \<Rightarrow> string \<Rightarrow> json" where
  "formdata_get formData name =
     (case map_of formData name of None \<Rightarrow> JNull | Some v \<Rightarrow> JString v)"

definition movement_data :: "(string \<times> string) list \<Rightarrow> json" where
  "movement_data formData =
     JObject
       [(''product_variant'', formdata_get formData ''product_variant''),
        (''location'', formdata_get formData ''location''),
        (''quantity_change'', formdata_get formData ''quantity_change''),
        (''notes'', formdata_get formData ''notes'')]"

definition post_movement :: "json \<Rightarrow> event" where
  "post_movement data =
     Fetch ''POST'' (API_BASE_URL @ ''/api/stock-movements/'')
       [(''Content-Type'', ''application/json'')] (Some data)"

text \<open>The two labels of the submit button (white space of the template normalised).\<close>

definition submitting_label :: string where
  \<open>submitting_label =
     ''<span class="spinner-border spinner-border-sm" role="status" aria-hidden="true"></span> Submitting...''\<close>

definition idle_label :: string where
  \<open>idle_label = ''<i class="bi bi-check-circle-fill"></i> Submit Movement''\<close>

definition movement_registered_alert :: swal_options where
  "movement_registered_alert =
     \<lparr>swal_icon = ''success'', swal_title = ''Movement Registered!'', swal_text = None,
      swal_showConfirmButton = Some False, swal_timer = Some 1500\<rparr>"

definition submission_failed_alert :: swal_options where
  "submission_failed_alert =
     \<lparr>swal_icon = ''error'', swal_title = ''Submission Failed'',
      swal_text = Some ''There was an error submitting the movement. Please check the data and try again.'',
      swal_showConfirmButton = None, swal_timer = None\<rparr>"

text \<open>The \<open>catch\<close> block of \<open>handleFormSubmit\<close>.\<close>

definition submit_catch :: "page \<Rightarrow> page" where
  "submit_catch p =
     emit (SwalFire submission_failed_alert) (emit (ConsoleError ''Form submission error:'') p)"

text \<open>
  \<open>handleFormSubmit\<close>. \<open>post\<close> is the backend's answer to the request body,
  \<open>stock_levels_result\<close> its answer to the listing request that follows a success.
\<close>

definition handleFormSubmit ::
  "(string \<Rightarrow> string \<Rightarrow> int) \<Rightarrow> (json \<Rightarrow> json fetch_result) \<Rightarrow> stock_item list fetch_result
     \<Rightarrow> page \<Rightarrow> page" where
  "handleFormSubmit localeCompare post stock_levels_result p =
     (let p1 = emit PreventDefault p;
          p2 = set_submit_innerHTML submitting_label (set_submit_disabled True p1);
          data = movement_data (form_entries p2);
          p3 = emit (post_movement data) p2;
          p4 = (case post data of
                  NetworkError \<Rightarrow> submit_catch p3
                | Response ok errorData \<Rightarrow>
                    if \<not> ok then submit_catch p3
                    else emit (SwalFire movement_registered_alert)
                           (fetchAndPopulateTable localeCompare stock_levels_result
                              (form_reset p3)))
      in set_submit_innerHTML idle_label (set_submit_disabled False p4))"

subsection \<open>The second script (\<open>unnamed/part_000\<close>)\<close>

definition render_row_part_000 :: "stock_item \<Rightarrow> table_row" where
  "render_row_part_000 item =
     StockRow (variant_product (item_product_variant item))
       (''Size: '' @ variant_size (item_product_variant item) @ '', Color: ''
          @ variant_color (item_product_variant item))
       (item_location_name item)
       (item_quantity item)"

definition table_catch_part_000 :: "page \<Rightarrow> page" where
  "table_catch_part_000 p =
     (emit (ConsoleError ''Error fetching stock levels:'') p)
       \<lparr>stockTableBody_innerHTML := [MessageRow ''Failed to load data. Please try again later.'']\<rparr>"

definition populate_table_part_000 :: "stock_item list \<Rightarrow> page \<Rightarrow> page" where
  "populate_table_part_000 stockLevels p =
     (let p1 = p\<lparr>stockTableBody_innerHTML := []\<rparr> in
      if length stockLevels = 0
      then p1\<lparr>stockTableBody_innerHTML := [MessageRow ''No stock data found.'']\<rparr>
      else foldl (append_row render_row_part_000) p1 stockLevels)"

definition fetchAndPopulateTable_part_000 :: "stock_item list fetch_result \<Rightarrow> page \<Rightarrow> page" where
  "fetchAndPopulateTable_part_000 stock_levels_result p =
     (let p1 = emit (Fetch ''GET'' (API_BASE_URL @ ''/api/stock-levels/'') [] None) p
      in case stock_levels_result of
           NetworkError \<Rightarrow> table_catch_part_000 p1
         | Response ok body \<Rightarrow>
             if \<not> ok then table_catch_part_000 p1
             else (case body of
                     None \<Rightarrow> table_catch_part_000 p1
                   | Some stockLevels \<Rightarrow> populate_table_part_000 stockLevels p1))"

definition submit_catch_part_000 :: "page \<Rightarrow> page" where
  "submit_catch_part_000 p =
     emit (Alert ''There was an error submitting the movement. Please check the console for details.'')
       (emit (ConsoleError ''Form submission error:'') p)"

definition handleFormSubmit_part_000 ::
  "(json \<Rightarrow> json fetch_result) \<Rightarrow> stock_item list fetch_result \<Rightarrow> page \<Rightarrow> page" where
  "handleFormSubmit_part_000 post stock_levels_result p =
     (let p1 = emit PreventDefault p;
          p2 = set_submit_disabled True (set_submit_aria_busy (Some ''true'') p1);
          data = movement_data (form_entries p2);
          p3 = emit (post_movement data) p2;
          p4 = (case post data of
                  NetworkError \<Rightarrow> submit_catch_part_000 p3
                | Response ok errorData \<Rightarrow>
                    if \<not> ok then submit_catch_part_000 p3
                    else fetchAndPopulateTable_part_000 stock_levels_result (form_reset p3))
      in set_submit_disabled False (set_submit_aria_busy None p4))"

subsection \<open>Predicates used by the statements\<close>

text \<open>A response counts as a success exactly when \<open>response.ok\<close> holds.\<close>

fun post_ok :: "'a fetch_result \<Rightarrow> bool" where
  "post_ok NetworkError = False"
| "post_ok (Response ok body) = ok"



fun is_dialog :: "event \<Rightarrow> bool" where
  "is_dialog (SwalFire options) = True"
| "is_dialog (Alert message) = True"
| "is_dialog e = False"

text \<open>The listing a response delivers: the parsed body of a response that is \<open>ok\<close>.\<close>

fun listing :: "'a fetch_result \<Rightarrow> 'a option" where
  "listing NetworkError = None"
| "listing (Response ok body) = (if ok then body else None)"

text \<open>The events of one run of the table handler, in each script.\<close>

definition table_events :: "stock_item list fetch_result \<Rightarrow> event list" where
  "table_events r =
     Fetch ''GET'' (API_BASE_URL @ ''/api/stock-levels/'') [] None
       # (case listing r of
            None \<Rightarrow> [ConsoleError ''Error fetching stock levels:'', SwalFire load_failed_alert]
          | Some stockLevels \<Rightarrow> [])"

definition table_events_part_000 :: "stock_item list fetch_result \<Rightarrow> event list" where
  "table_events_part_000 r =
     Fetch ''GET'' (API_BASE_URL @ ''/api/stock-levels/'') [] None
       # (case listing r of
            None \<Rightarrow> [ConsoleError ''Error fetching stock levels:'']
          | Some stockLevels \<Rightarrow> [])"

fun is_post :: "event \<Rightarrow> bool" where
  "is_post (Fetch method url headers body) = (method = ''POST'')"
| "is_post e = False"

text \<open>
  A comparison function is consistent when it orders any two values one way or the
  other and does so transitively; \<open>sort\<close> promises a sorted result only for such a
  function.
\<close>

definition consistent_comparator :: "('a \<Rightarrow> 'a \<Rightarrow> int) \<Rightarrow> bool" where
  "consistent_comparator compareFn =
     ((\<forall>a b. compareFn a b \<le> 0 \<or> compareFn b a \<le> 0)
      \<and> (\<forall>a b c. compareFn a b \<le> 0 \<longrightarrow> compareFn b c \<le> 0 \<longrightarrow> compareFn a c \<le> 0))"

text \<open>Two values tie under a comparison function when neither has to come after the other.\<close>

definition ties :: "('a \<Rightarrow> 'a \<Rightarrow> int) \<Rightarrow> 'a \<Rightarrow> 'a \<Rightarrow> bool" where
  "ties compareFn a b = (compareFn a b \<le> 0 \<and> compareFn b a \<le> 0)"

text \<open>Comparison of two strings by their character codes, as a concrete locale.\<close>

fun ordinal_compare :: "string \<Rightarrow> string \<Rightarrow> int" where
  "ordinal_compare [] [] = 0"
| "ordinal_compare [] (y # ys) = - 1"
| "ordinal_compare (x # xs) [] = 1"
| "ordinal_compare (x # xs) (y # ys) =
     (if (of_char x :: nat) < of_char y then - 1
      else if (of_char y :: nat) < of_char x then 1
      else ordinal_compare xs ys)"

subsection \<open>Concrete movements\<close>

definition variantA_loc1_plus10 :: StockMovement where
  "variantA_loc1_plus10 =
     \<lparr>product_variant = 1, location = 1, quantity_change = 10, movement_notes = ''delivery''\<rparr>"

definition variantA_loc1_minus3 :: StockMovement where
  "variantA_loc1_minus3 =
     \<lparr>product_variant = 1, location = 1, quantity_change = - 3, movement_notes = ''sale''\<rparr>"

definition variantA_loc1_zero :: StockMovement where
  "variantA_loc1_zero =
     \<lparr>product_variant = 1, location = 1, quantity_change = 0, movement_notes = ''''\<rparr>"

text \<open>The database after one delivery of 10: the key (1, 1) holds 10.\<close>

definition stocked_database :: database where
  "stocked_database = snd (save no_failure variantA_loc1_plus10 empty_database)"

subsection \<open>Concrete pages and answers\<close>

definition filled_page :: page where
  "filled_page =
     \<lparr>form_entries =
        [(''product_variant'', ''3''), (''location'', ''2''), (''quantity_change'', ''0''),
         (''notes'', ''recount'')],
      form_defaults = [(''quantity_change'', ''''), (''notes'', '''')],
      submit_disabled = False,
      submit_innerHTML = idle_label,
      submit_aria_busy = None,
      stockTableBody_innerHTML = [],
      stockTableBody_display = '''',
      loadingSpinner_display = ''none'',
      emptyState_display = ''none'',
      events = []\<rparr>"

definition accepting_backend :: "json \<Rightarrow> json fetch_result" where
  "accepting_backend data = Response True (Some data)"

definition rejecting_backend :: "json \<Rightarrow> json fetch_result" where
  "rejecting_backend data =
     Response False (Some (JObject [(''quantity_change'', JString ''A valid integer is required.'')]))"

definition zebra_item :: stock_item where
  "zebra_item =
     \<lparr>item_product_variant =
        \<lparr>variant_product = ''Zebra'', variant_size = ''M'', variant_color = ''White''\<rparr>,
      item_location_name = ''Shop'', item_quantity = 4\<rparr>"

definition apple_item :: stock_item where
  "apple_item =
     \<lparr>item_product_variant =
        \<lparr>variant_product = ''Apple'', variant_size = ''L'', variant_color = ''Red''\<rparr>,
      item_location_name = ''Depot'', item_quantity = 7\<rparr>"

definition apple_shop_item :: stock_item where
  "apple_shop_item =
     \<lparr>item_product_variant =
        \<lparr>variant_product = ''Apple'', variant_size = ''S'', variant_color = ''Green''\<rparr>,
      item_location_name = ''Shop'', item_quantity = 2\<rparr>"

subsection \<open>What a call does\<close>

lemma save_success:
  "save no_failure self db =
     (None, \<lparr>stock_levels = (stock_levels db)(movement_key self \<mapsto> balance db (movement_key self) + quantity_change self),
             stock_movements = stock_movements db @ [self]\<rparr>)"
  by (simp add: save_def atomic_def save_body_def get_or_create_def no_failure_def balance_def
      Let_def split: option.splits)


lemma save_body_partial:
  "save_body (fails_at SaveMovement) self db =
     (Some (DatabaseError SaveMovement),
      db\<lparr>stock_levels := (stock_levels db)(movement_key self \<mapsto> balance db (movement_key self) + quantity_change self)\<rparr>)"
  by (simp add: save_body_def get_or_create_def fails_at_def balance_def Let_def
      split: option.splits)








lemma save_accepts_zero_change:
  "quantity_change self = 0 \<Longrightarrow>
   save no_failure self db =
     (None, \<lparr>stock_levels = (stock_levels db)(movement_key self \<mapsto> balance db (movement_key self)),
             stock_movements = stock_movements db @ [self]\<rparr>)"
  by (simp add: save_success)

subsection \<open>Schedules of concurrent calls\<close>

text \<open>A call that runs its three steps with no other call in between is \<open>save\<close>.\<close>

lemma one_call_alone:
  "interleave [0, 0, 0] [(self, NotStarted)] db = ([(self, Finished)], snd (save no_failure self db))"
  by (simp add: save_success get_or_create_def no_failure_def balance_def Let_def
      split: option.splits)

lemma calls_in_turn:
  "interleave [0, 0, 0, 1, 1, 1] [(a, NotStarted), (b, NotStarted)] db
     = ([(a, Finished), (b, Finished)], snd (save no_failure b (snd (save no_failure a db))))"
  by (simp add: save_success get_or_create_def no_failure_def balance_def Let_def
      split: option.splits)

text \<open>
  Both calls fetch before either writes: the second write is computed from the
  quantity fetched before the first, and replaces it.
\<close>

lemma both_fetch_before_either_writes:
  assumes "stock_levels db (movement_key a) = Some q" and "movement_key b = movement_key a"
  shows "interleave [0, 1, 0, 0, 1, 1] [(a, NotStarted), (b, NotStarted)] db
     = ([(a, Finished), (b, Finished)],
        \<lparr>stock_levels = (stock_levels db)(movement_key a \<mapsto> q + quantity_change b),
         stock_movements = stock_movements db @ [a, b]\<rparr>)"
  using assms by (simp add: get_or_create_def no_failure_def Let_def)

subsection \<open>The guard\<close>

lemma applyMovement_valid:
  "q \<noteq> 0 \<Longrightarrow> variantId \<in> set variants \<Longrightarrow> locationId \<in> set locations \<Longrightarrow>
   applyMovement no_failure variants locations variantId locationId (IntegerValue q) noteText db =
     (Inr \<lparr>product_variant = variantId, location = locationId, quantity_change = q,
           movement_notes = noteText\<rparr>,
      snd (save no_failure
        \<lparr>product_variant = variantId, location = locationId, quantity_change = q,
         movement_notes = noteText\<rparr> db))"
  by (simp add: applyMovement_def validate_movement_def save_success)

subsection \<open>The claims about the ledger\<close>



text \<open>
  C2. A call of \<open>save\<close> either raises and leaves the database exactly as it was, or
  returns normally with both effects in place: the key's quantity raised by
  \<open>quantity_change\<close> and the movement appended. It raises exactly when the storage
  fails at one of the statements of the block.
\<close>

theorem save_is_atomic:
  "(if fails GetOrCreate \<or> fails SaveStockLevel \<or> fails SaveMovement
    then fst (save fails self db) \<noteq> None \<and> snd (save fails self db) = db
    else save fails self db =
      (None, \<lparr>stock_levels = (stock_levels db)(movement_key self \<mapsto>
                  balance db (movement_key self) + quantity_change self),
              stock_movements = stock_movements db @ [self]\<rparr>))"
  by (cases "fails GetOrCreate"; cases "fails SaveStockLevel"; cases "fails SaveMovement";
      simp add: save_def atomic_def save_body_def get_or_create_def balance_def Let_def
        split: option.splits)

theorem save_is_atomic_witness:
  "snd (save_body (fails_at SaveMovement) variantA_loc1_plus10 empty_database) \<noteq> empty_database
   \<and> fst (save (fails_at SaveMovement) variantA_loc1_plus10 empty_database) \<noteq> None
   \<and> snd (save (fails_at SaveMovement) variantA_loc1_plus10 empty_database) = empty_database"
proof -
  have "stock_levels (snd (save_body (fails_at SaveMovement) variantA_loc1_plus10 empty_database)) (1, 1)
          \<noteq> stock_levels empty_database (1, 1)"
    by (simp add: save_body_partial movement_key_def variantA_loc1_plus10_def empty_database_def)
  then have "snd (save_body (fails_at SaveMovement) variantA_loc1_plus10 empty_database) \<noteq> empty_database"
    by auto
  then show ?thesis
    using save_is_atomic [of "fails_at SaveMovement" variantA_loc1_plus10 empty_database]
    by (simp add: fails_at_def)
qed

text \<open>
  C3, at two concurrent calls on the key (1, 1), which holds 10: a delivery of 10 and a
  sale of 3. Both calls fetch the row before either writes it back; the delivery then
  writes and inserts its movement, and the sale does the same after it. Every fetch
  precedes every write and each call's two writes are adjacent, so no call reads what
  another has not committed. Both calls finish and both movements are in the ledger,
  whose sum for the key is 17, the prior balance plus both deltas; the stored quantity
  is 7. The delivery's delta is lost.
\<close>

theorem lost_update:
  "balance stocked_database (1, 1) = 10
   \<and> fst (interleave [0, 1, 0, 0, 1, 1]
        [(variantA_loc1_plus10, NotStarted), (variantA_loc1_minus3, NotStarted)] stocked_database)
       = [(variantA_loc1_plus10, Finished), (variantA_loc1_minus3, Finished)]
   \<and> stock_levels (snd (interleave [0, 1, 0, 0, 1, 1]
        [(variantA_loc1_plus10, NotStarted), (variantA_loc1_minus3, NotStarted)] stocked_database))
        (1, 1) = Some 7
   \<and> ledger_sum (snd (interleave [0, 1, 0, 0, 1, 1]
        [(variantA_loc1_plus10, NotStarted), (variantA_loc1_minus3, NotStarted)] stocked_database))
        (1, 1) = 17
   \<and> balance stocked_database (1, 1)
        + (quantity_change variantA_loc1_plus10 + quantity_change variantA_loc1_minus3) = 17"
  by (simp add: stocked_database_def save_success get_or_create_def no_failure_def balance_def
      ledger_sum_def movements_for_def movement_key_def empty_database_def Let_def
      variantA_loc1_plus10_def variantA_loc1_minus3_def)

text \<open>
  C4. \<open>applyMovement\<close> with a quantity change that is zero or not an integer, or with
  a variant or a location that does not exist, fails with \<open>ValidationError\<close> and
  leaves the database as it was: no movement is appended and no row is created or
  written. The guard that decides this is the one modelled from the specification;
  \<open>save\<close> is not reached.
\<close>

theorem invalid_movement_is_rejected:
  assumes "quantityChange = IntegerValue 0 \<or> (\<exists>raw. quantityChange = NonInteger raw)
           \<or> variantId \<notin> set variants \<or> locationId \<notin> set locations"
  shows "applyMovement fails variants locations variantId locationId quantityChange noteText db
           = (Inl ValidationError, db)"
  using assms
  by (cases quantityChange) (auto simp: applyMovement_def validate_movement_def)

theorem invalid_movement_is_rejected_witness:
  "applyMovement no_failure [1] [1] 1 1 (IntegerValue 0) ''recount'' stocked_database
     = (Inl ValidationError, stocked_database)
   \<and> applyMovement no_failure [1] [1] 1 1 (NonInteger ''2.5'') ''recount'' stocked_database
     = (Inl ValidationError, stocked_database)
   \<and> applyMovement no_failure [1] [1] 9 1 (IntegerValue 5) ''recount'' stocked_database
     = (Inl ValidationError, stocked_database)
   \<and> applyMovement no_failure [1] [1] 1 9 (IntegerValue 5) ''recount'' stocked_database
     = (Inl ValidationError, stocked_database)
   \<and> fst (applyMovement no_failure [1] [1] 1 1 (IntegerValue 5) ''recount'' stocked_database)
     = Inr \<lparr>product_variant = 1, location = 1, quantity_change = 5, movement_notes = ''recount''\<rparr>"
  using invalid_movement_is_rejected
      [where quantityChange = "IntegerValue 0" and variants = "[1]" and locations = "[1]"
         and variantId = 1 and locationId = 1 and fails = no_failure
         and noteText = "''recount''" and db = stocked_database]
    invalid_movement_is_rejected
      [where quantityChange = "NonInteger ''2.5''" and variants = "[1]" and locations = "[1]"
         and variantId = 1 and locationId = 1 and fails = no_failure
         and noteText = "''recount''" and db = stocked_database]
    invalid_movement_is_rejected
      [where quantityChange = "IntegerValue 5" and variants = "[1]" and locations = "[1]"
         and variantId = 9 and locationId = 1 and fails = no_failure
         and noteText = "''recount''" and db = stocked_database]
    invalid_movement_is_rejected
      [where quantityChange = "IntegerValue 5" and variants = "[1]" and locations = "[1]"
         and variantId = 1 and locationId = 9 and fails = no_failure
         and noteText = "''recount''" and db = stocked_database]
  by (simp add: applyMovement_valid)

section \<open>Properties of the client page\<close>

subsection \<open>The handlers, statement by statement\<close>

lemma foldl_append_row:
  "foldl (append_row render) p items =
     p\<lparr>stockTableBody_innerHTML := stockTableBody_innerHTML p @ map render items\<rparr>"
  by (induction items arbitrary: p) (simp_all add: append_row_def)

lemma populate_table_eq:
  "populate_table localeCompare stockLevels p =
     (if stockLevels = [] then p\<lparr>stockTableBody_innerHTML := [], emptyState_display := ''block''\<rparr>
      else p\<lparr>stockTableBody_innerHTML :=
                map render_row (array_sort (compare_product localeCompare) stockLevels)\<rparr>)"
  by (simp add: populate_table_def foldl_append_row showEmptyState_def Let_def)

lemma fetchAndPopulateTable_eq:
  "fetchAndPopulateTable localeCompare r p =
     (case listing r of
        None \<Rightarrow>
          p\<lparr>loadingSpinner_display := ''none'', stockTableBody_display := '''',
            emptyState_display := ''block'',
            events := events p @ table_events r\<rparr>
      | Some stockLevels \<Rightarrow>
          p\<lparr>loadingSpinner_display := ''none'', stockTableBody_display := '''',
            emptyState_display := (if stockLevels = [] then ''block'' else ''none''),
            stockTableBody_innerHTML :=
              map render_row (array_sort (compare_product localeCompare) stockLevels),
            events := events p @ table_events r\<rparr>)"
  by (cases r)
    (auto simp: fetchAndPopulateTable_def populate_table_eq table_catch_def showEmptyState_def
      showLoading_def emit_def table_events_def Let_def split: option.splits)

lemma populate_table_part_000_eq:
  "populate_table_part_000 stockLevels p =
     p\<lparr>stockTableBody_innerHTML :=
         (if stockLevels = [] then [MessageRow ''No stock data found.'']
          else map render_row_part_000 stockLevels)\<rparr>"
  by (simp add: populate_table_part_000_def foldl_append_row Let_def)

lemma fetchAndPopulateTable_part_000_eq:
  "fetchAndPopulateTable_part_000 r p =
     p\<lparr>stockTableBody_innerHTML :=
         (case listing r of
            None \<Rightarrow> [MessageRow ''Failed to load data. Please try again later.'']
          | Some stockLevels \<Rightarrow>
              if stockLevels = [] then [MessageRow ''No stock data found.'']
              else map render_row_part_000 stockLevels),
       events := events p @ table_events_part_000 r\<rparr>"
  by (cases r)
    (auto simp: fetchAndPopulateTable_part_000_def populate_table_part_000_eq
      table_catch_part_000_def emit_def table_events_part_000_def Let_def split: option.splits)

lemma handleFormSubmit_events:
  "events (handleFormSubmit localeCompare post r p) =
     events p
     @ [PreventDefault, SubmitDisabled True, SubmitInnerHTML submitting_label,
        post_movement (movement_data (form_entries p))]
     @ (if post_ok (post (movement_data (form_entries p)))
        then FormReset # table_events r @ [SwalFire movement_registered_alert]
        else [ConsoleError ''Form submission error:'', SwalFire submission_failed_alert])
     @ [SubmitDisabled False, SubmitInnerHTML idle_label]"
  by (cases "post (movement_data (form_entries p))")
    (auto simp: handleFormSubmit_def fetchAndPopulateTable_eq submit_catch_def emit_def
      set_submit_disabled_def set_submit_innerHTML_def form_reset_def Let_def
      split: option.splits)

lemma handleFormSubmit_form:
  "form_entries (handleFormSubmit localeCompare post r p) =
     (if post_ok (post (movement_data (form_entries p))) then form_defaults p else form_entries p)"
  by (cases "post (movement_data (form_entries p))")
    (auto simp: handleFormSubmit_def fetchAndPopulateTable_eq submit_catch_def emit_def
      set_submit_disabled_def set_submit_innerHTML_def form_reset_def Let_def
      split: option.splits)


lemma handleFormSubmit_part_000_events:
  "events (handleFormSubmit_part_000 post r p) =
     events p
     @ [PreventDefault, SubmitAriaBusy True, SubmitDisabled True,
        post_movement (movement_data (form_entries p))]
     @ (if post_ok (post (movement_data (form_entries p)))
        then FormReset # table_events_part_000 r
        else [ConsoleError ''Form submission error:'',
              Alert ''There was an error submitting the movement. Please check the console for details.''])
     @ [SubmitAriaBusy False, SubmitDisabled False]"
  by (cases "post (movement_data (form_entries p))")
    (auto simp: handleFormSubmit_part_000_def fetchAndPopulateTable_part_000_eq
      submit_catch_part_000_def emit_def set_submit_disabled_def set_submit_aria_busy_def
      form_reset_def Let_def)

lemma handleFormSubmit_part_000_form:
  "form_entries (handleFormSubmit_part_000 post r p) =
     (if post_ok (post (movement_data (form_entries p))) then form_defaults p else form_entries p)"
  by (cases "post (movement_data (form_entries p))")
    (auto simp: handleFormSubmit_part_000_def fetchAndPopulateTable_part_000_eq
      submit_catch_part_000_def emit_def set_submit_disabled_def set_submit_aria_busy_def
      form_reset_def Let_def)


lemma new_events_append: "events p' = events p @ es \<Longrightarrow> new_events p p' = es"
  by (simp add: new_events_def)

subsection \<open>The sort\<close>

lemma mset_sort_insert: "mset (sort_insert c x ys) = add_mset x (mset ys)"
  by (induction ys) simp_all

lemma mset_array_sort: "mset (array_sort c xs) = mset xs"
  by (induction xs) (simp_all add: mset_sort_insert)



lemma set_sort_insert: "set (sort_insert c x ys) = insert x (set ys)"
  by (induction ys) auto

lemma sorted_sort_insert:
  assumes "consistent_comparator c" and "sorted_wrt (\<lambda>a b. c a b \<le> 0) ys"
  shows "sorted_wrt (\<lambda>a b. c a b \<le> 0) (sort_insert c x ys)"
  using assms(2)
proof (induction ys)
  case Nil
  then show ?case by simp
next
  case (Cons y ys)
  from assms(1) have total: "\<And>a b. c a b \<le> 0 \<or> c b a \<le> 0"
    and trans: "\<And>a b d. c a b \<le> 0 \<Longrightarrow> c b d \<le> 0 \<Longrightarrow> c a d \<le> 0"
    unfolding consistent_comparator_def by blast+
  show ?case
  proof (cases "c x y \<le> 0")
    case True
    with Cons.prems trans show ?thesis by auto
  next
    case False
    with total have "c y x \<le> 0" by blast
    with False Cons show ?thesis by (auto simp: set_sort_insert)
  qed
qed

lemma sorted_array_sort:
  "consistent_comparator c \<Longrightarrow> sorted_wrt (\<lambda>a b. c a b \<le> 0) (array_sort c xs)"
  by (induction xs) (simp_all add: sorted_sort_insert)

text \<open>Stability: the values that tie with a given one keep their order.\<close>

lemma filter_ties_sort_insert:
  assumes "consistent_comparator c"
  shows "filter (ties c z) (sort_insert c x ys) = filter (ties c z) (x # ys)"
proof (induction ys)
  case Nil
  then show ?case by simp
next
  case (Cons y ys)
  from assms have trans: "\<And>a b d. c a b \<le> 0 \<Longrightarrow> c b d \<le> 0 \<Longrightarrow> c a d \<le> 0"
    unfolding consistent_comparator_def by blast
  show ?case
  proof (cases "c x y \<le> 0")
    case True
    then show ?thesis by simp
  next
    case False
    have "\<not> (ties c z x \<and> ties c z y)"
    proof
      assume "ties c z x \<and> ties c z y"
      then have "c x z \<le> 0" and "c z y \<le> 0" by (simp_all add: ties_def)
      then have "c x y \<le> 0" by (rule trans)
      with False show False by simp
    qed
    with False Cons.IH show ?thesis by auto
  qed
qed

lemma filter_ties_array_sort:
  "consistent_comparator c \<Longrightarrow> filter (ties c z) (array_sort c xs) = filter (ties c z) xs"
  by (induction xs) (simp_all add: filter_ties_sort_insert)

lemma ties_refl: "consistent_comparator c \<Longrightarrow> ties c a a"
  unfolding consistent_comparator_def ties_def by blast

lemma consistent_compare_product:
  "consistent_comparator localeCompare \<Longrightarrow> consistent_comparator (compare_product localeCompare)"
  unfolding consistent_comparator_def compare_product_def by blast

lemma first_cell_render_row [simp]:
  "first_cell (render_row item) = variant_product (item_product_variant item)"
  by (simp add: render_row_def)

lemma ordinal_compare_total: "ordinal_compare a b \<le> 0 \<or> ordinal_compare b a \<le> 0"
  by (induction a b rule: ordinal_compare.induct) auto

lemma ordinal_compare_trans:
  "ordinal_compare a b \<le> 0 \<Longrightarrow> ordinal_compare b c \<le> 0 \<Longrightarrow> ordinal_compare a c \<le> 0"
proof (induction a arbitrary: b c)
  case Nil
  then show ?case by (cases c) simp_all
next
  case (Cons x xs)
  then show ?case
    by (cases b; cases c) (auto split: if_splits)
qed

lemma consistent_ordinal_compare: "consistent_comparator ordinal_compare"
  unfolding consistent_comparator_def
  using ordinal_compare_total ordinal_compare_trans by blast

subsection \<open>The events of one submission\<close>

lemma handleFormSubmit_new_events:
  "new_events p (handleFormSubmit localeCompare post r p) =
     [PreventDefault, SubmitDisabled True, SubmitInnerHTML submitting_label,
        post_movement (movement_data (form_entries p))]
     @ (if post_ok (post (movement_data (form_entries p)))
        then FormReset # table_events r @ [SwalFire movement_registered_alert]
        else [ConsoleError ''Form submission error:'', SwalFire submission_failed_alert])
     @ [SubmitDisabled False, SubmitInnerHTML idle_label]"
  by (rule new_events_append) (simp add: handleFormSubmit_events)

lemma handleFormSubmit_part_000_new_events:
  "new_events p (handleFormSubmit_part_000 post r p) =
     [PreventDefault, SubmitAriaBusy True, SubmitDisabled True,
        post_movement (movement_data (form_entries p))]
     @ (if post_ok (post (movement_data (form_entries p)))
        then FormReset # table_events_part_000 r
        else [ConsoleError ''Form submission error:'',
              Alert ''There was an error submitting the movement. Please check the console for details.''])
     @ [SubmitAriaBusy False, SubmitDisabled False]"
  by (rule new_events_append) (simp add: handleFormSubmit_part_000_events)



lemma table_events_no_post: "filter is_post (table_events r) = []"
  by (simp add: table_events_def split: option.splits)

lemma table_events_part_000_no_post: "filter is_post (table_events_part_000 r) = []"
  by (simp add: table_events_part_000_def split: option.splits)

lemma table_events_part_000_no_dialog: "filter is_dialog (table_events_part_000 r) = []"
  by (simp add: table_events_part_000_def split: option.splits)

subsection \<open>The claims about the client page\<close>

text \<open>
  C5. In both scripts the form is reset exactly when the POST was answered with an
  \<open>ok\<close> response. When the POST fails (the request rejects, or the response is not
  \<open>ok\<close>) the form's contents are what they were; and in no run is the form reset
  before the request is sent.
\<close>

theorem form_kept_when_post_fails:
  "(FormReset \<in> set (new_events p (handleFormSubmit localeCompare post r p)))
     = post_ok (post (movement_data (form_entries p)))
   \<and> (\<not> post_ok (post (movement_data (form_entries p)))
        \<longrightarrow> form_entries (handleFormSubmit localeCompare post r p) = form_entries p)
   \<and> FormReset \<notin> set (takeWhile (\<lambda>e. \<not> is_post e)
        (new_events p (handleFormSubmit localeCompare post r p)))
   \<and> (FormReset \<in> set (new_events p (handleFormSubmit_part_000 post r p)))
     = post_ok (post (movement_data (form_entries p)))
   \<and> (\<not> post_ok (post (movement_data (form_entries p)))
        \<longrightarrow> form_entries (handleFormSubmit_part_000 post r p) = form_entries p)
   \<and> FormReset \<notin> set (takeWhile (\<lambda>e. \<not> is_post e)
        (new_events p (handleFormSubmit_part_000 post r p)))"
  by (simp add: handleFormSubmit_new_events handleFormSubmit_part_000_new_events
      handleFormSubmit_form handleFormSubmit_part_000_form post_movement_def
      table_events_def table_events_part_000_def split: option.splits)

theorem form_kept_when_post_fails_witness:
  "\<not> post_ok (rejecting_backend (movement_data (form_entries filled_page)))
   \<and> form_entries (handleFormSubmit ordinal_compare rejecting_backend NetworkError filled_page)
       = form_entries filled_page
   \<and> FormReset \<notin> set (new_events filled_page
        (handleFormSubmit ordinal_compare rejecting_backend NetworkError filled_page))
   \<and> form_entries (handleFormSubmit_part_000 rejecting_backend NetworkError filled_page)
       = form_entries filled_page
   \<and> FormReset \<notin> set (new_events filled_page
        (handleFormSubmit_part_000 rejecting_backend NetworkError filled_page))"
  using form_kept_when_post_fails
    [where p = filled_page and post = rejecting_backend and r = NetworkError
       and localeCompare = ordinal_compare]
  by (simp add: rejecting_backend_def)

text \<open>
  C6, as the specification states it, on the second script: a submission the backend
  accepts resets the form and fetches the listing again, and opens no dialog of any
  kind.
\<close>

theorem part_000_success_has_no_acknowledgment:
  "new_events filled_page
      (handleFormSubmit_part_000 accepting_backend (Response True (Some [apple_item])) filled_page)
     = [PreventDefault, SubmitAriaBusy True, SubmitDisabled True,
        post_movement (movement_data (form_entries filled_page)),
        FormReset,
        Fetch ''GET'' (API_BASE_URL @ ''/api/stock-levels/'') [] None,
        SubmitAriaBusy False, SubmitDisabled False]
   \<and> filter is_dialog (new_events filled_page
        (handleFormSubmit_part_000 accepting_backend (Response True (Some [apple_item])) filled_page))
     = []"
  by (simp add: handleFormSubmit_part_000_new_events accepting_backend_def
      table_events_part_000_def post_movement_def)

text \<open>
  C6, amended. In \<open>script.js\<close> a submission the backend accepts resets the form, then
  fetches the listing again, then opens the success dialog, which closes by itself
  after 1500 ms. In the second script it resets the form and fetches the listing
  again; that script has no success dialog.
\<close>

theorem successful_submission_steps:
  assumes "post_ok (post (movement_data (form_entries p)))"
  shows "new_events p (handleFormSubmit localeCompare post r p) =
           [PreventDefault, SubmitDisabled True, SubmitInnerHTML submitting_label,
            post_movement (movement_data (form_entries p)), FormReset]
           @ table_events r
           @ [SwalFire movement_registered_alert, SubmitDisabled False, SubmitInnerHTML idle_label]
         \<and> form_entries (handleFormSubmit localeCompare post r p) = form_defaults p
         \<and> swal_icon movement_registered_alert = ''success''
         \<and> swal_timer movement_registered_alert = Some 1500
         \<and> new_events p (handleFormSubmit_part_000 post r p) =
           [PreventDefault, SubmitAriaBusy True, SubmitDisabled True,
            post_movement (movement_data (form_entries p)), FormReset]
           @ table_events_part_000 r
           @ [SubmitAriaBusy False, SubmitDisabled False]
         \<and> form_entries (handleFormSubmit_part_000 post r p) = form_defaults p"
  using assms
  by (simp add: handleFormSubmit_new_events handleFormSubmit_part_000_new_events
      handleFormSubmit_form handleFormSubmit_part_000_form movement_registered_alert_def)

theorem successful_submission_steps_witness:
  "post_ok (accepting_backend (movement_data (form_entries filled_page)))
   \<and> new_events filled_page
        (handleFormSubmit ordinal_compare accepting_backend (Response True (Some [apple_item])) filled_page)
       = [PreventDefault, SubmitDisabled True, SubmitInnerHTML submitting_label,
          post_movement (movement_data (form_entries filled_page)), FormReset,
          Fetch ''GET'' (API_BASE_URL @ ''/api/stock-levels/'') [] None,
          SwalFire movement_registered_alert, SubmitDisabled False, SubmitInnerHTML idle_label]
   \<and> form_entries
        (handleFormSubmit ordinal_compare accepting_backend (Response True (Some [apple_item])) filled_page)
       = [(''quantity_change'', ''''), (''notes'', '''')]"
proof -
  have h: "post_ok (accepting_backend (movement_data (form_entries filled_page)))"
    by (simp add: accepting_backend_def)
  show ?thesis
    using h successful_submission_steps
      [where post = accepting_backend and p = filled_page and localeCompare = ordinal_compare
         and r = "Response True (Some [apple_item])", OF h]
    by (simp add: table_events_def filled_page_def)
qed

text \<open>
  C7, as the specification states it, on the second script: the rows are displayed in
  the order of the response: Zebra in the first row, Apple in the second, although
  Zebra compares greater than Apple.
\<close>

theorem part_000_rows_in_response_order:
  "stockTableBody_innerHTML
      (fetchAndPopulateTable_part_000 (Response True (Some [zebra_item, apple_item])) filled_page)
     = [StockRow ''Zebra'' ''Size: M, Color: White'' ''Shop'' 4,
        StockRow ''Apple'' ''Size: L, Color: Red'' ''Depot'' 7]
   \<and> ordinal_compare
        (first_cell (stockTableBody_innerHTML
          (fetchAndPopulateTable_part_000 (Response True (Some [zebra_item, apple_item])) filled_page) ! 0))
        (first_cell (stockTableBody_innerHTML
          (fetchAndPopulateTable_part_000 (Response True (Some [zebra_item, apple_item])) filled_page) ! 1))
       = 1"
  by (simp add: fetchAndPopulateTable_part_000_eq render_row_part_000_def zebra_item_def
      apple_item_def)

text \<open>
  C7, amended. In \<open>script.js\<close> the rows displayed for a listing are the rows of its
  items, in nondecreasing order of the product name under the locale's comparison
  (any consistent comparison), and the sort is stable: the rows whose product names
  tie with a given name, those of the same name among them, are the rows of the
  listing's items of such a name in the order of the response. In the second script
  the rows are those of the items in the order of the response.
\<close>

theorem listing_sorted_by_product:
  assumes "consistent_comparator localeCompare"
  shows "sorted_wrt (\<lambda>a b. localeCompare (first_cell a) (first_cell b) \<le> 0)
           (stockTableBody_innerHTML
              (fetchAndPopulateTable localeCompare (Response True (Some stockLevels)) p))
         \<and> mset (stockTableBody_innerHTML
              (fetchAndPopulateTable localeCompare (Response True (Some stockLevels)) p))
             = mset (map render_row stockLevels)
         \<and> filter (\<lambda>row. ties localeCompare name (first_cell row))
              (stockTableBody_innerHTML
                 (fetchAndPopulateTable localeCompare (Response True (Some stockLevels)) p))
             = map render_row
                 (filter (\<lambda>item. ties localeCompare name
                            (variant_product (item_product_variant item))) stockLevels)
         \<and> ties localeCompare name name
         \<and> stockTableBody_innerHTML
              (fetchAndPopulateTable_part_000 (Response True (Some (item # stockLevels))) p)
             = map render_row_part_000 (item # stockLevels)"
proof -
  let ?c = "compare_product localeCompare"
  let ?sorted = "array_sort ?c stockLevels"
  have rows: "stockTableBody_innerHTML
      (fetchAndPopulateTable localeCompare (Response True (Some stockLevels)) p)
      = map render_row ?sorted"
    by (simp add: fetchAndPopulateTable_eq)
  have "sorted_wrt (\<lambda>a b. ?c a b \<le> 0) ?sorted"
    using assms by (simp add: sorted_array_sort consistent_compare_product)
  then have s: "sorted_wrt (\<lambda>a b. localeCompare (first_cell a) (first_cell b) \<le> 0)
      (map render_row ?sorted)"
    by (simp add: sorted_wrt_map compare_product_def)
  have "mset (map render_row ?sorted) = image_mset render_row (mset ?sorted)"
    by simp
  then have m: "mset (map render_row ?sorted) = mset (map render_row stockLevels)"
    by (simp add: mset_array_sort)
  define z :: stock_item where
    "z = \<lparr>item_product_variant =
            \<lparr>variant_product = name, variant_size = [], variant_color = []\<rparr>,
          item_location_name = [], item_quantity = 0\<rparr>"
  have t: "ties ?c z
      = (\<lambda>item. ties localeCompare name (variant_product (item_product_variant item)))"
    by (rule ext) (simp add: ties_def compare_product_def z_def)
  have "filter (ties ?c z) ?sorted = filter (ties ?c z) stockLevels"
    using assms by (simp add: filter_ties_array_sort consistent_compare_product)
  then have "filter (\<lambda>item. ties localeCompare name (variant_product (item_product_variant item)))
      ?sorted
    = filter (\<lambda>item. ties localeCompare name (variant_product (item_product_variant item)))
        stockLevels"
    unfolding t .
  then have f: "filter (\<lambda>row. ties localeCompare name (first_cell row)) (map render_row ?sorted)
    = map render_row
        (filter (\<lambda>item. ties localeCompare name (variant_product (item_product_variant item)))
           stockLevels)"
    by (simp add: filter_map comp_def)
  have r: "ties localeCompare name name"
    using assms by (rule ties_refl)
  show ?thesis
    using s m f r by (simp add: rows fetchAndPopulateTable_part_000_eq)
qed

theorem listing_sorted_by_product_witness:
  "consistent_comparator ordinal_compare
   \<and> stockTableBody_innerHTML
        (fetchAndPopulateTable ordinal_compare
           (Response True (Some [zebra_item, apple_item, apple_shop_item])) filled_page)
       = [StockRow ''Apple'' ''L / Red'' ''Depot'' 7, StockRow ''Apple'' ''S / Green'' ''Shop'' 2,
          StockRow ''Zebra'' ''M / White'' ''Shop'' 4]
   \<and> sorted_wrt (\<lambda>a b. ordinal_compare (first_cell a) (first_cell b) \<le> 0)
        (stockTableBody_innerHTML
          (fetchAndPopulateTable ordinal_compare
             (Response True (Some [zebra_item, apple_item, apple_shop_item])) filled_page))
   \<and> filter (\<lambda>row. ties ordinal_compare ''Apple'' (first_cell row))
        (stockTableBody_innerHTML
          (fetchAndPopulateTable ordinal_compare
             (Response True (Some [zebra_item, apple_item, apple_shop_item])) filled_page))
       = [render_row apple_item, render_row apple_shop_item]"
proof -
  have rows: "stockTableBody_innerHTML
        (fetchAndPopulateTable ordinal_compare
           (Response True (Some [zebra_item, apple_item, apple_shop_item])) filled_page)
       = [StockRow ''Apple'' ''L / Red'' ''Depot'' 7, StockRow ''Apple'' ''S / Green'' ''Shop'' 2,
          StockRow ''Zebra'' ''M / White'' ''Shop'' 4]"
    by (simp add: fetchAndPopulateTable_eq compare_product_def render_row_def zebra_item_def
        apple_item_def apple_shop_item_def)
  have t: "filter (\<lambda>item. ties ordinal_compare ''Apple''
              (variant_product (item_product_variant item)))
            [zebra_item, apple_item, apple_shop_item]
          = [apple_item, apple_shop_item]"
    by (simp add: ties_def zebra_item_def apple_item_def apple_shop_item_def)
  show ?thesis
    using consistent_ordinal_compare
      listing_sorted_by_product [where localeCompare = ordinal_compare
        and stockLevels = "[zebra_item, apple_item, apple_shop_item]" and p = filled_page
        and name = "''Apple''", OF consistent_ordinal_compare]
    by (simp only: t rows list.map simp_thms)
qed





text \<open>
  C10. In both scripts a run of the handler sends exactly one POST, to
  \<open>/api/stock-movements/\<close>, whatever the form holds. Its body is the object of the four
  fields \<open>product_variant\<close>, \<open>location\<close>, \<open>quantity_change\<close> and \<open>notes\<close>, in
  that order; the value of each is the form's value of that name as a JSON string,
  unchanged, or \<open>null\<close> when the form has no entry of that name.
\<close>

theorem request_body_is_raw_form_data:
  "filter is_post (new_events p (handleFormSubmit localeCompare post r p)) =
     [Fetch ''POST'' (API_BASE_URL @ ''/api/stock-movements/'')
        [(''Content-Type'', ''application/json'')]
        (Some (JObject
           [(''product_variant'', formdata_get (form_entries p) ''product_variant''),
            (''location'', formdata_get (form_entries p) ''location''),
            (''quantity_change'', formdata_get (form_entries p) ''quantity_change''),
            (''notes'', formdata_get (form_entries p) ''notes'')]))]
   \<and> filter is_post (new_events p (handleFormSubmit_part_000 post r p)) =
       filter is_post (new_events p (handleFormSubmit localeCompare post r p))
   \<and> (\<forall>name v. map_of (form_entries p) name = Some v
         \<longrightarrow> formdata_get (form_entries p) name = JString v)
   \<and> (\<forall>name. map_of (form_entries p) name = None
         \<longrightarrow> formdata_get (form_entries p) name = JNull)"
  by (simp add: handleFormSubmit_new_events handleFormSubmit_part_000_new_events
      table_events_no_post table_events_part_000_no_post post_movement_def movement_data_def
      formdata_get_def)

theorem request_body_is_raw_form_data_witness:
  "map_of (form_entries filled_page) ''quantity_change'' = Some ''0''
   \<and> filter is_post
        (new_events filled_page
          (handleFormSubmit ordinal_compare rejecting_backend NetworkError filled_page)) =
     [Fetch ''POST'' ''https://oldtree-api.onrender.com/api/stock-movements/''
        [(''Content-Type'', ''application/json'')]
        (Some (JObject
           [(''product_variant'', JString ''3''),
            (''location'', JString ''2''),
            (''quantity_change'', JString ''0''),
            (''notes'', JString ''recount'')]))]"
  using request_body_is_raw_form_data
    [where p = filled_page and post = rejecting_backend and r = NetworkError
       and localeCompare = ordinal_compare]
  by (simp add: filled_page_def formdata_get_def API_BASE_URL_def)

end
